theory Spec2Isabelle
  imports Complex_Main "HOL-Library.Sublist"
begin

section \<open>Python values\<close>

text \<open>
  A Python \<open>str\<close> is a sequence of Unicode code points, so text is a list of
  code point numbers. \<open>u\<close> writes an ASCII literal of the source as such a list.
  Logging (\<open>self.log\<close>) is taken not to raise and leaves no trace in the model.
\<close>

type_synonym pystr = "nat list"

definition u :: "string \<Rightarrow> pystr" where
  "u s = map of_char s"

text \<open>
  The exceptions that reach the handlers of the two stages. The handlers tell apart
  \<open>TimeoutException\<close>, \<open>NoSuchElementException\<close> and every other
  \<open>Exception\<close>; none of the classes below is a subclass of one of the first two.
  Signals outside \<open>Exception\<close> (\<open>KeyboardInterrupt\<close>, \<open>SystemExit\<close>)
  are not modelled.
\<close>

datatype exn =
    TimeoutException
  | NoSuchElementException
  | StaleElementReferenceException
  | WebDriverException
  | AttributeError
  | IndexError
  | KeyError
  | ValueError
  | ParserError
  | OSError

text \<open>\<open>str.isspace\<close>: the code points Python 3 treats as whitespace.\<close>

definition isspace :: "nat \<Rightarrow> bool" where
  "isspace c =
     (c \<in> {9, 10, 11, 12, 13, 28, 29, 30, 31, 32, 133, 160, 5760,
            8232, 8233, 8239, 8287, 12288} \<or> (8192 \<le> c \<and> c \<le> 8202))"

text \<open>\<open>s.strip()\<close>: whitespace removed at both ends.\<close>

definition py_strip :: "pystr \<Rightarrow> pystr" where
  "py_strip s = rev (dropWhile isspace (rev (dropWhile isspace s)))"

text \<open>
  \<open>s.split()\<close> with no separator: the maximal runs of non-whitespace, in order.
  \<open>split_scan tok rest\<close> holds the token read so far.
\<close>

fun split_scan :: "pystr \<Rightarrow> pystr \<Rightarrow> pystr list" where
  "split_scan tok [] = (if tok = [] then [] else [tok])"
| "split_scan tok (c # cs) =
     (if isspace c
      then (if tok = [] then split_scan [] cs else tok # split_scan [] cs)
      else split_scan (tok @ [c]) cs)"

definition py_split :: "pystr \<Rightarrow> pystr list" where
  "py_split s = split_scan [] s"

text \<open>\<open>s.split("?")[0]\<close>: the text before the first question mark.\<close>

definition before_query :: "pystr \<Rightarrow> pystr" where
  "before_query s = takeWhile (\<lambda>c. c \<noteq> 63) s"

text \<open>\<open>needle in hay\<close> on strings: \<open>needle\<close> occurs as a contiguous run.\<close>

fun starts_with :: "pystr \<Rightarrow> pystr \<Rightarrow> bool" where
  "starts_with [] hay = True"
| "starts_with (c # cs) [] = False"
| "starts_with (c # cs) (d # ds) = (c = d \<and> starts_with cs ds)"

fun py_in :: "pystr \<Rightarrow> pystr \<Rightarrow> bool" where
  "py_in needle [] = (needle = [])"
| "py_in needle (d # ds) = (starts_with needle (d # ds) \<or> py_in needle ds)"

text \<open>\<open>time.sleep(d)\<close> raises \<open>ValueError\<close> on a negative duration.\<close>

definition sleep :: "real \<Rightarrow> exn option" where
  "sleep d = (if d < 0 then Some ValueError else None)"

text \<open>
  \<open>random.uniform(a, b)\<close> is \<open>a + (b - a) * random()\<close>; the draw
  \<open>random()\<close> is an input of the model, and the arithmetic is exact.
\<close>

definition uniform :: "real \<Rightarrow> real \<Rightarrow> real \<Rightarrow> real" where
  "uniform a b r = a + (b - a) * r"

section \<open>The browser\<close>

text \<open>
  A call into Selenium either returns or raises: \<open>exn option\<close> for a call made
  for its effect (\<open>None\<close> when it returns), \<open>exn + 'a\<close> for one that returns
  a value. What the browser does on each page is an input of the model.

  \<open>WebDriverWait.until\<close> polls a condition until it holds or the timeout
  passes. A poll finds the condition true (\<open>Ready\<close>), false (\<open>NotYet\<close>) or
  raising (\<open>Fails\<close>); \<open>until\<close> ignores \<open>NoSuchElementException\<close>,
  lets any other exception through, and raises \<open>TimeoutException\<close> when the
  polls of the waiting time are used up.
\<close>

datatype poll = Ready | NotYet | Fails exn

fun until :: "poll list \<Rightarrow> exn option" where
  "until [] = Some TimeoutException"
| "until (Ready # ps) = None"
| "until (NotYet # ps) = until ps"
| "until (Fails e # ps) = (if e = NoSuchElementException then until ps else Some e)"

section \<open>Tables\<close>

text \<open>
  A pandas \<open>DataFrame\<close> of text columns: the column labels and the rows, a cell
  being a string or the missing value \<open>NaN\<close>. \<open>str\<close> of a missing value is
  the text \<open>nan\<close>. Columns that pandas would read as numbers, and the renaming
  of a repeated column label, are outside the model.
\<close>

datatype cell = NaN | Str pystr

record frame =
  columns :: "pystr list"
  rows :: "cell list list"

fun py_str :: "cell \<Rightarrow> pystr" where
  "py_str NaN = u ''nan''"
| "py_str (Str s) = s"

text \<open>
  The file behind a path, as \<open>pd.read_csv\<close> meets it: unreadable (the call
  raises), or a header line and data lines split into fields. \<open>read_csv\<close> turns
  each field that is one of the default missing-value markers, the empty field among
  them, into \<open>NaN\<close>, fills a short line with \<open>NaN\<close> and refuses a line
  with more fields than the header.
\<close>

datatype csv_source = Unreadable exn | Table "pystr list" "pystr list list"

definition na_values :: "pystr list" where
  "na_values = map u
     ['''', ''#N/A'', ''#N/A N/A'', ''#NA'', ''-1.#IND'', ''-1.#QNAN'', ''-NaN'', ''-nan'',
      ''1.#IND'', ''1.#QNAN'', ''<NA>'', ''N/A'', ''NA'', ''NULL'', ''NaN'', ''None'',
      ''n/a'', ''nan'', ''null'']"

definition parse_field :: "pystr \<Rightarrow> cell" where
  "parse_field f = (if f \<in> set na_values then NaN else Str f)"

definition read_line :: "nat \<Rightarrow> pystr list \<Rightarrow> cell list" where
  "read_line n fs = map parse_field fs @ replicate (n - length fs) NaN"

definition read_csv :: "csv_source \<Rightarrow> exn + frame" where
  "read_csv src =
     (case src of
        Unreadable e \<Rightarrow> Inl e
      | Table header body \<Rightarrow>
          if list_ex (\<lambda>fs. length header < length fs) body then Inl ParserError
          else Inr \<lparr>columns = header, rows = map (read_line (length header)) body\<rparr>)"

text \<open>The position of a column label; the first one when a label repeats.\<close>

fun index_of :: "pystr \<Rightarrow> pystr list \<Rightarrow> nat option" where
  "index_of c [] = None"
| "index_of c (d # ds) =
     (if c = d then Some 0 else map_option Suc (index_of c ds))"

definition cell_at :: "cell list \<Rightarrow> nat \<Rightarrow> cell" where
  "cell_at r i = (if i < length r then r ! i else NaN)"

text \<open>\<open>row[c]\<close>: \<open>KeyError\<close> when the frame has no column \<open>c\<close>.\<close>

definition getitem :: "pystr list \<Rightarrow> cell list \<Rightarrow> pystr \<Rightarrow> exn + cell" where
  "getitem cols r c =
     (case index_of c cols of None \<Rightarrow> Inl KeyError | Some i \<Rightarrow> Inr (cell_at r i))"

text \<open>\<open>df.dropna(subset=[c])\<close>: the rows whose cell in column \<open>c\<close> is not missing.\<close>

definition dropna :: "pystr \<Rightarrow> frame \<Rightarrow> exn + frame" where
  "dropna c df =
     (case index_of c (columns df) of
        None \<Rightarrow> Inl KeyError
      | Some i \<Rightarrow> Inr (df\<lparr>rows := filter (\<lambda>r. cell_at r i \<noteq> NaN) (rows df)\<rparr>))"

text \<open>
  \<open>df[c] = values\<close>: \<open>ValueError\<close> when the lengths differ; the column is
  replaced where it exists and added at the right otherwise.
\<close>

definition setitem :: "pystr \<Rightarrow> cell list \<Rightarrow> frame \<Rightarrow> exn + frame" where
  "setitem c vals df =
     (if length vals \<noteq> length (rows df) then Inl ValueError
      else case index_of c (columns df) of
        None \<Rightarrow>
          Inr \<lparr>columns = columns df @ [c],
               rows = map (\<lambda>(r, v). r @ [v]) (zip (rows df) vals)\<rparr>
      | Some i \<Rightarrow>
          Inr (df\<lparr>rows := map (\<lambda>(r, v). r[i := v]) (zip (rows df) vals)\<rparr>))"

text \<open>
  \<open>df.drop_duplicates(subset=[c])\<close> keeps, of the rows with equal cells in column
  \<open>c\<close>, the first. \<open>keep_first key seen xs\<close> walks the rows with the keys already
  met.
\<close>

fun keep_first :: "('a \<Rightarrow> 'k) \<Rightarrow> 'k list \<Rightarrow> 'a list \<Rightarrow> 'a list" where
  "keep_first key seen [] = []"
| "keep_first key seen (x # xs) =
     (if key x \<in> set seen then keep_first key seen xs
      else x # keep_first key (key x # seen) xs)"

definition drop_duplicates :: "pystr \<Rightarrow> frame \<Rightarrow> exn + frame" where
  "drop_duplicates c df =
     (case index_of c (columns df) of
        None \<Rightarrow> Inl KeyError
      | Some i \<Rightarrow> Inr (df\<lparr>rows := keep_first (\<lambda>r. cell_at r i) [] (rows df)\<rparr>))"

section \<open>The messaging stage: LinkedInMessenger\<close>

text \<open>
  \<open>MessengerConfig\<close>, without the credentials and the \<open>headless\<close> and
  \<open>verbose\<close> switches, which only reach the browser options and the log.
\<close>

record MessengerConfig =
  input_csv_path :: pystr
  output_csv_path_m :: pystr
  messages :: "pystr list"
  min_delay_sec :: real
  max_delay_sec :: real

text \<open>
  What a stage run leaves behind: the value \<open>run\<close> returns or the exception it
  ends with, the files \<open>to_csv\<close> wrote (path and table, in order), and the
  durations of the pacing sleeps of the record loop, in order.
\<close>

record 'a outcome =
  returned :: "exn + 'a"
  written :: "(pystr \<times> frame) list"
  paced :: "real list"

text \<open>A sequence of calls made for their effect ends at the first that raises.\<close>

fun steps :: "exn option list \<Rightarrow> exn option" where
  "steps [] = None"
| "steps (None # ss) = steps ss"
| "steps (Some e # ss) = Some e"

text \<open>
  The login page: loading it, the wait for the user name box, typing the credentials
  and clicking submit, and the wait for the feed address.
\<close>

record login_page =
  login_nav :: "exn option"
  username_box :: "poll list"
  submit_form :: "exn option"
  feed_url :: "poll list"

definition LinkedInMessenger_login :: "login_page \<Rightarrow> exn option" where
  "LinkedInMessenger_login lp =
     steps [login_nav lp, until (username_box lp), submit_form lp, until (feed_url lp)]"

text \<open>
  What the browser shows on the visit to one lead: the navigation, the Message buttons
  found, the polls for the compose box, clearing it and typing, the polls for the Send
  button, the click, and what each later poll reads in the compose box (its text, or
  the exception of the lookup).
\<close>

record message_button =
  is_displayed :: "exn + bool"
  is_enabled :: "exn + bool"
  click_button :: "exn option"

record lead_page =
  lead_nav :: "exn option"
  message_buttons :: "exn + message_button list"
  input_box :: "poll list"
  clear_box :: "exn option"
  send_keys :: "exn option"
  send_button :: "poll list"
  send_click :: "exn option"
  box_reads :: "(exn + pystr) list"

text \<open>
  The world of a messaging run: whether Chrome starts, the login page, the files, the
  page met on the \<open>i\<close>-th visit, \<open>str.format\<close> on a template and a first
  name, and the draws of \<open>random.choice\<close> and of \<open>random.uniform\<close> for the
  \<open>i\<close>-th lead.
\<close>

record messenger_world =
  m_chrome :: "exn option"
  m_login :: login_page
  csv_files :: "pystr \<Rightarrow> csv_source"
  lead_pages :: "nat \<Rightarrow> lead_page"
  py_format :: "pystr \<Rightarrow> pystr \<Rightarrow> exn + pystr"
  choice_draw :: "nat \<Rightarrow> nat"
  uniform_draw :: "nat \<Rightarrow> real"

text \<open>
  \<open>first = name.split()[0] if isinstance(name, str) and name.strip() else ""\<close>;
  the argument is a Python value, a string or the missing value.
\<close>

definition first_name :: "cell \<Rightarrow> exn + pystr" where
  "first_name name =
     (case name of
        NaN \<Rightarrow> Inr []
      | Str s \<Rightarrow>
          if py_strip s \<noteq> []
          then (case py_split s of [] \<Rightarrow> Inl IndexError | t # ts \<Rightarrow> Inr t)
          else Inr [])"

text \<open>The loop over the Message buttons; the result is \<open>message_button_clicked\<close>.\<close>

fun click_first_usable :: "message_button list \<Rightarrow> exn + bool" where
  "click_first_usable [] = Inr False"
| "click_first_usable (b # bs) =
     (case is_displayed b of
        Inl e \<Rightarrow> Inl e
      | Inr False \<Rightarrow> click_first_usable bs
      | Inr True \<Rightarrow>
          (case is_enabled b of
             Inl e \<Rightarrow> Inl e
           | Inr False \<Rightarrow> click_first_usable bs
           | Inr True \<Rightarrow>
               (case click_button b of Some e \<Rightarrow> Inl e | None \<Rightarrow> Inr True)))"

definition open_message :: "lead_page \<Rightarrow> exn + bool" where
  "open_message pg =
     (case message_buttons pg of Inl e \<Rightarrow> Inl e | Inr bs \<Rightarrow> click_first_usable bs)"

text \<open>
  The second block: wait for the compose box, give up when no template is configured
  (\<open>Inr False\<close>), choose a template, fill in the first name, clear the box and type.
\<close>

definition write_message ::
  "messenger_world \<Rightarrow> MessengerConfig \<Rightarrow> nat \<Rightarrow> lead_page \<Rightarrow> pystr \<Rightarrow> exn + bool" where
  "write_message W cfg i pg first =
     (case until (input_box pg) of
        Some e \<Rightarrow> Inl e
      | None \<Rightarrow>
          if messages cfg = [] then Inr False
          else
            (case py_format W (messages cfg ! (choice_draw W i mod length (messages cfg))) first of
               Inl e \<Rightarrow> Inl e
             | Inr msg \<Rightarrow>
                 (case steps [clear_box pg, send_keys pg] of
                    Some e \<Rightarrow> Inl e
                  | None \<Rightarrow> Inr True)))"

text \<open>
  \<open>box_cleared\<close>: the box is taken as cleared when its text is blank, and also
  when looking it up raises.
\<close>

definition box_cleared :: "exn + pystr \<Rightarrow> poll" where
  "box_cleared r =
     (case r of Inl e \<Rightarrow> Ready | Inr txt \<Rightarrow> if py_strip txt = [] then Ready else NotYet)"

definition submit_message :: "lead_page \<Rightarrow> exn option" where
  "submit_message pg =
     steps [until (send_button pg), send_click pg, until (map box_cleared (box_reads pg))]"

text \<open>
  \<open>send_message_to_profile\<close> on the \<open>i\<close>-th visit. The navigation and the
  first name are computed before the first \<open>try\<close>; each of the three \<open>try\<close>
  blocks turns every exception into \<open>Failed\<close>.
\<close>

definition send_message_to_profile ::
  "messenger_world \<Rightarrow> MessengerConfig \<Rightarrow> nat \<Rightarrow> pystr \<Rightarrow> cell \<Rightarrow> exn + pystr" where
  "send_message_to_profile W cfg i profile_url name =
     (case lead_nav (lead_pages W i) of
        Some e \<Rightarrow> Inl e
      | None \<Rightarrow>
          (case first_name name of
             Inl e \<Rightarrow> Inl e
           | Inr first \<Rightarrow>
               (case open_message (lead_pages W i) of
                  Inl e \<Rightarrow> Inr (u ''Failed'')
                | Inr False \<Rightarrow> Inr (u ''Failed'')
                | Inr True \<Rightarrow>
                    (case write_message W cfg i (lead_pages W i) first of
                       Inl e \<Rightarrow> Inr (u ''Failed'')
                     | Inr False \<Rightarrow> Inr (u ''Failed'')
                     | Inr True \<Rightarrow>
                         (case submit_message (lead_pages W i) of
                            Some e \<Rightarrow> Inr (u ''Failed'')
                          | None \<Rightarrow> Inr (u ''Message Sent''))))))"

text \<open>
  The first lines of \<open>run\<close> after the login: read the file, check the two
  required columns, drop the rows without an address.
\<close>

definition load_leads :: "csv_source \<Rightarrow> exn + frame" where
  "load_leads src =
     (case read_csv src of
        Inl e \<Rightarrow> Inl e
      | Inr df \<Rightarrow>
          if u ''LinkedIn URL'' \<notin> set (columns df) \<or> u ''Name'' \<notin> set (columns df)
          then Inl ValueError
          else dropna (u ''LinkedIn URL'') df)"

text \<open>
  The loop of \<open>run\<close> over the rows: \<open>i\<close> counts the visits, \<open>results\<close> is
  \<open>self._results\<close>, \<open>slept\<close> the pacing sleeps so far.
\<close>

fun message_leads ::
  "messenger_world \<Rightarrow> MessengerConfig \<Rightarrow> pystr list \<Rightarrow> nat \<Rightarrow> cell list list \<Rightarrow>
   pystr list \<Rightarrow> real list \<Rightarrow> (exn + pystr list) \<times> real list" where
  "message_leads W cfg cols i [] results slept = (Inr results, slept)"
| "message_leads W cfg cols i (r # rest) results slept =
     (case getitem cols r (u ''Name'') of
        Inl e \<Rightarrow> (Inl e, slept)
      | Inr name \<Rightarrow>
          (case getitem cols r (u ''LinkedIn URL'') of
             Inl e \<Rightarrow> (Inl e, slept)
           | Inr url \<Rightarrow>
               (case send_message_to_profile W cfg i (py_str url) (Str (py_str name)) of
                  Inl e \<Rightarrow> (Inl e, slept)
                | Inr status \<Rightarrow>
                    (case sleep (uniform (min_delay_sec cfg) (max_delay_sec cfg) (uniform_draw W i)) of
                       Some e \<Rightarrow> (Inl e, slept)
                     | None \<Rightarrow>
                         message_leads W cfg cols (Suc i) rest (results @ [status])
                           (slept @ [uniform (min_delay_sec cfg) (max_delay_sec cfg)
                                       (uniform_draw W i)])))))"

text \<open>
  \<open>LinkedInMessenger.run\<close>. The \<open>finally\<close> block only closes the browser and
  swallows what that raises, so it does not show in the outcome.
\<close>

definition LinkedInMessenger_run :: "messenger_world \<Rightarrow> MessengerConfig \<Rightarrow> pystr outcome" where
  "LinkedInMessenger_run W cfg =
     (case steps [m_chrome W, LinkedInMessenger_login (m_login W)] of
        Some e \<Rightarrow> \<lparr>returned = Inl e, written = [], paced = []\<rparr>
      | None \<Rightarrow>
          (case load_leads (csv_files W (input_csv_path cfg)) of
             Inl e \<Rightarrow> \<lparr>returned = Inl e, written = [], paced = []\<rparr>
           | Inr df \<Rightarrow>
               (case message_leads W cfg (columns df) 0 (rows df) [] [] of
                  (Inl e, slept) \<Rightarrow> \<lparr>returned = Inl e, written = [], paced = slept\<rparr>
                | (Inr results, slept) \<Rightarrow>
                    (case setitem (u ''Result'') (map Str results) df of
                       Inl e \<Rightarrow> \<lparr>returned = Inl e, written = [], paced = slept\<rparr>
                     | Inr out \<Rightarrow>
                         \<lparr>returned = Inr (output_csv_path_m cfg),
                          written = [(output_csv_path_m cfg, out)],
                          paced = slept\<rparr>))))"

section \<open>The scrape and connection stage: LinkedInScraper\<close>

text \<open>
  \<open>ScraperConfig\<close>, without the credentials, the search address (it only reaches
  the browser) and the \<open>headless\<close> and \<open>verbose\<close> switches.
\<close>

record ScraperConfig =
  start_page :: int
  end_page :: int
  scroll_pause :: real
  page_load_sleep :: real
  output_csv_path :: "pystr option"

text \<open>A scraped profile, and a result: the profile with its \<open>Connection\<close> status.\<close>

record profile =
  Name :: pystr
  Title :: pystr
  LinkedIn_URL :: pystr

record result = profile +
  Connection :: pystr

text \<open>
  A result card of a search page: the \<open>href\<close> of its link (\<open>None\<close> when the
  attribute is absent), the text of the name, and the texts of the two subtitle
  elements, each lookup raising when the element is not there.
\<close>

record card =
  link_href :: "exn + pystr option"
  name_text :: "exn + pystr"
  primary_subtitle :: "exn + pystr"
  secondary_subtitle :: "exn + pystr"

record search_page =
  search_nav :: "exn option"
  scroll_script :: "exn option"
  jitter :: real
  cards :: "exn + card list"

text \<open>
  A profile page: the buttons the invite lookup finds, each with its
  \<open>aria-label\<close> and what scrolling to it and clicking it do; the polls for the
  dialog and for the button to send without a note, scrolling to that button and
  clicking it; and how many Pending and Follow buttons the fallback lookups find.
\<close>

record invite_button =
  aria_label :: "exn + pystr option"
  scroll_to :: "exn option"
  click_invite :: "exn option"

record profile_page =
  profile_nav :: "exn option"
  invite_buttons :: "exn + invite_button list"
  dialog :: "poll list"
  send_without_note :: "poll list"
  scroll_send :: "exn option"
  click_send :: "exn option"
  pending_buttons :: "exn + nat"
  follow_buttons :: "exn + nat"

record scraper_world =
  s_chrome :: "exn option"
  s_login :: login_page
  search_pages :: "int \<Rightarrow> search_page"
  profile_pages :: "nat \<Rightarrow> profile_page"

text \<open>\<open>LinkedInScraper.login\<close>: a timeout of the wait for the feed is only logged.\<close>

definition LinkedInScraper_login :: "login_page \<Rightarrow> exn option" where
  "LinkedInScraper_login lp =
     (case steps [login_nav lp, until (username_box lp), submit_form lp] of
        Some e \<Rightarrow> Some e
      | None \<Rightarrow>
          if until (feed_url lp) = Some TimeoutException then None else until (feed_url lp))"

text \<open>The title of a card: the primary subtitle, else the secondary one, else \<open>N/A\<close>.\<close>

definition card_title :: "card \<Rightarrow> exn + pystr" where
  "card_title c =
     (case primary_subtitle c of
        Inr t \<Rightarrow> Inr (py_strip t)
      | Inl e \<Rightarrow>
          if e = NoSuchElementException
          then (case secondary_subtitle c of
                  Inr t \<Rightarrow> Inr (py_strip t)
                | Inl e' \<Rightarrow> if e' = NoSuchElementException then Inr (u ''N/A'') else Inl e')
          else Inl e)"

definition scrape_card :: "card \<Rightarrow> exn + profile" where
  "scrape_card c =
     (case link_href c of
        Inl e \<Rightarrow> Inl e
      | Inr None \<Rightarrow> Inl AttributeError
      | Inr (Some h) \<Rightarrow>
          (case name_text c of
             Inl e \<Rightarrow> Inl e
           | Inr n \<Rightarrow>
               (case card_title c of
                  Inl e \<Rightarrow> Inl e
                | Inr t \<Rightarrow> Inr \<lparr>Name = py_strip n, Title = t, LinkedIn_URL = before_query h\<rparr>)))"

text \<open>The loop over the cards of a page: a card that raises is logged and skipped.\<close>

fun scrape_cards :: "card list \<Rightarrow> profile list \<Rightarrow> profile list" where
  "scrape_cards [] profiles = profiles"
| "scrape_cards (c # cs) profiles =
     (case scrape_card c of
        Inl e \<Rightarrow> scrape_cards cs profiles
      | Inr p \<Rightarrow> scrape_cards cs (profiles @ [p]))"

fun scrape_pages ::
  "scraper_world \<Rightarrow> ScraperConfig \<Rightarrow> int list \<Rightarrow> profile list \<Rightarrow> exn + profile list" where
  "scrape_pages W cfg [] profiles = Inr profiles"
| "scrape_pages W cfg (p # ps) profiles =
     (case steps [search_nav (search_pages W p), scroll_script (search_pages W p),
                  sleep (scroll_pause cfg + jitter (search_pages W p))] of
        Some e \<Rightarrow> Inl e
      | None \<Rightarrow>
          (case cards (search_pages W p) of
             Inl e \<Rightarrow> Inl e
           | Inr cs \<Rightarrow> scrape_pages W cfg ps (scrape_cards cs profiles)))"

definition scrape_search_pages :: "scraper_world \<Rightarrow> ScraperConfig \<Rightarrow> exn + profile list" where
  "scrape_search_pages W cfg = scrape_pages W cfg [start_page cfg..end_page cfg] []"

text \<open>
  \<open>next((btn for btn in invite_buttons if name in (btn.get_attribute("aria-label") or "")), None)\<close>:
  the first button whose label contains the name.
\<close>

fun select_invite :: "pystr \<Rightarrow> invite_button list \<Rightarrow> exn + invite_button option" where
  "select_invite name [] = Inr None"
| "select_invite name (b # bs) =
     (case aria_label b of
        Inl e \<Rightarrow> Inl e
      | Inr lab \<Rightarrow>
          if py_in name (case lab of None \<Rightarrow> [] | Some l \<Rightarrow> l) then Inr (Some b)
          else select_invite name bs)"

text \<open>What follows the click on the invite button, up to the status of success.\<close>

definition confirm_invite :: "profile_page \<Rightarrow> exn + pystr" where
  "confirm_invite pg =
     (case steps [until (dialog pg), until (send_without_note pg),
                  scroll_send pg, click_send pg] of
        Some e \<Rightarrow> Inl e
      | None \<Rightarrow> Inr (u ''Connection request sent''))"

text \<open>
  The body of the \<open>try\<close>: with no button selected it raises
  \<open>TimeoutException\<close> itself.
\<close>

definition invite_flow :: "pystr \<Rightarrow> profile_page \<Rightarrow> exn + pystr" where
  "invite_flow name pg =
     (case invite_buttons pg of
        Inl e \<Rightarrow> Inl e
      | Inr bs \<Rightarrow>
          (case select_invite name bs of
             Inl e \<Rightarrow> Inl e
           | Inr None \<Rightarrow> Inl TimeoutException
           | Inr (Some b) \<Rightarrow>
               (case steps [scroll_to b, click_invite b] of
                  Some e \<Rightarrow> Inl e
                | None \<Rightarrow> confirm_invite pg)))"

text \<open>
  The handler of \<open>TimeoutException\<close>. Its two lookups stand outside every
  \<open>try\<close>: what they raise leaves the stage.
\<close>

definition fallback_detection :: "profile_page \<Rightarrow> exn + pystr" where
  "fallback_detection pg =
     (case pending_buttons pg of
        Inl e \<Rightarrow> Inl e
      | Inr n \<Rightarrow>
          if 0 < n then Inr (u ''Request Sent'')
          else (case follow_buttons pg of
                  Inl e \<Rightarrow> Inl e
                | Inr m \<Rightarrow>
                    if 0 < m then Inr (u ''Not connected - follow only'')
                    else Inr (u ''No invite option'')))"

text \<open>The \<open>try\<close> with its three handlers: the status of one profile.\<close>

definition connection_status :: "pystr \<Rightarrow> profile_page \<Rightarrow> exn + pystr" where
  "connection_status name pg =
     (case invite_flow name pg of
        Inr status \<Rightarrow> Inr status
      | Inl e \<Rightarrow>
          if e = TimeoutException then fallback_detection pg
          else if e = NoSuchElementException then Inr (u ''Error - element missing'')
          else Inr (u ''Error - unexpected''))"

text \<open>
  The loop of \<open>send_connection_requests\<close>: \<open>i\<close> counts the visits, \<open>results\<close>
  is \<open>self.results\<close>, \<open>slept\<close> the sleeps after the navigations. The navigation
  and that sleep stand before the \<open>try\<close>. \<open>_debug_print_buttons\<close> only logs and
  swallows what it raises, so \<open>debug_buttons\<close> is left out.
\<close>

fun connect_profiles ::
  "scraper_world \<Rightarrow> ScraperConfig \<Rightarrow> nat \<Rightarrow> profile list \<Rightarrow> result list \<Rightarrow> real list \<Rightarrow>
   (exn + result list) \<times> real list" where
  "connect_profiles W cfg i [] results slept = (Inr results, slept)"
| "connect_profiles W cfg i (entry # rest) results slept =
     (case steps [profile_nav (profile_pages W i), sleep (page_load_sleep cfg)] of
        Some e \<Rightarrow> (Inl e, slept)
      | None \<Rightarrow>
          (case connection_status (Name entry) (profile_pages W i) of
             Inl e \<Rightarrow> (Inl e, slept @ [page_load_sleep cfg])
           | Inr status \<Rightarrow>
               connect_profiles W cfg (Suc i) rest
                 (results @ [\<lparr>Name = Name entry, Title = Title entry,
                              LinkedIn_URL = LinkedIn_URL entry, Connection = status\<rparr>])
                 (slept @ [page_load_sleep cfg])))"

definition send_connection_requests ::
  "scraper_world \<Rightarrow> ScraperConfig \<Rightarrow> profile list \<Rightarrow> (exn + result list) \<times> real list" where
  "send_connection_requests W cfg profiles = connect_profiles W cfg 0 profiles [] []"

text \<open>
  \<open>pd.DataFrame(self.results, columns=["Name", "Title", "LinkedIn URL", "Connection"])\<close>.
\<close>

definition results_frame :: "result list \<Rightarrow> frame" where
  "results_frame rs =
     \<lparr>columns = [u ''Name'', u ''Title'', u ''LinkedIn URL'', u ''Connection''],
      rows = map (\<lambda>r. [Str (Name r), Str (Title r), Str (LinkedIn_URL r), Str (Connection r)]) rs\<rparr>"

text \<open>\<open>save_results_to_csv\<close>: the path written to and the table written.\<close>

definition save_results_to_csv ::
  "ScraperConfig \<Rightarrow> result list \<Rightarrow> pystr option \<Rightarrow> exn + pystr \<times> frame" where
  "save_results_to_csv cfg rs path =
     (case drop_duplicates (u ''LinkedIn URL'') (results_frame rs) of
        Inl e \<Rightarrow> Inl e
      | Inr df \<Rightarrow>
          Inr (case path of
                 Some p \<Rightarrow> p
               | None \<Rightarrow>
                   (case output_csv_path cfg of
                      None \<Rightarrow> u ''linkedin_leads.csv''
                    | Some q \<Rightarrow> if q = [] then u ''linkedin_leads.csv'' else q),
               df))"

text \<open>
  \<open>LinkedInScraper.run\<close>. The file is written when \<open>output_csv_path\<close> is
  neither \<open>None\<close> nor empty; the value returned is \<open>self.results\<close>.
\<close>

definition LinkedInScraper_run :: "scraper_world \<Rightarrow> ScraperConfig \<Rightarrow> result list outcome" where
  "LinkedInScraper_run W cfg =
     (case steps [s_chrome W, LinkedInScraper_login (s_login W)] of
        Some e \<Rightarrow> \<lparr>returned = Inl e, written = [], paced = []\<rparr>
      | None \<Rightarrow>
          (case scrape_search_pages W cfg of
             Inl e \<Rightarrow> \<lparr>returned = Inl e, written = [], paced = []\<rparr>
           | Inr profiles \<Rightarrow>
               (case send_connection_requests W cfg profiles of
                  (Inl e, slept) \<Rightarrow> \<lparr>returned = Inl e, written = [], paced = slept\<rparr>
                | (Inr results, slept) \<Rightarrow>
                    (case output_csv_path cfg of
                       None \<Rightarrow> \<lparr>returned = Inr results, written = [], paced = slept\<rparr>
                     | Some p \<Rightarrow>
                         if p = [] then \<lparr>returned = Inr results, written = [], paced = slept\<rparr>
                         else
                           (case save_results_to_csv cfg results (Some p) of
                              Inl e \<Rightarrow> \<lparr>returned = Inl e, written = [], paced = slept\<rparr>
                            | Inr file \<Rightarrow>
                                \<lparr>returned = Inr results, written = [file], paced = slept\<rparr>)))))"

section \<open>Outcome labels, de-duplication of records, sample inputs\<close>

text \<open>
  The label sets of the two stages as the specification lists them, the profile a
  result was made from, and \<open>dedupe\<close> on records as the specification words it:
  of the records with the same \<open>LinkedIn URL\<close> the first is kept.
\<close>

definition connection_labels :: "pystr set" where
  "connection_labels =
     {u ''Connection request sent'', u ''Request Sent'', u ''Not connected - follow only'',
      u ''No invite option'', u ''Error - element missing'', u ''Error - unexpected''}"

definition messaging_labels :: "pystr set" where
  "messaging_labels = {u ''Message Sent'', u ''Failed''}"

definition profile_of :: "result \<Rightarrow> profile" where
  "profile_of r = \<lparr>Name = Name r, Title = Title r, LinkedIn_URL = LinkedIn_URL r\<rparr>"

definition dedupe :: "result list \<Rightarrow> result list" where
  "dedupe rs = keep_first LinkedIn_URL [] rs"

text \<open>
  Sample inputs: a login that succeeds; leads whose message goes out, whose page has
  no Message button, and whose page does not load; a file of three leads, one without
  an address; profile pages on which the invitation goes through, the dialog never
  shows, no button is found, and the page does not load; and a search page that lists
  the same profile twice.
\<close>

definition ok_login :: login_page where
  "ok_login = \<lparr>login_nav = None, username_box = [Ready], submit_form = None,
               feed_url = [NotYet, Ready]\<rparr>"

definition ok_button :: message_button where
  "ok_button = \<lparr>is_displayed = Inr True, is_enabled = Inr True, click_button = None\<rparr>"

definition ok_lead :: lead_page where
  "ok_lead = \<lparr>lead_nav = None, message_buttons = Inr [ok_button], input_box = [Ready],
              clear_box = None, send_keys = None, send_button = [Ready], send_click = None,
              box_reads = [Inr (u ''Hi''), Inr []]\<rparr>"

definition closed_lead :: lead_page where
  "closed_lead = ok_lead\<lparr>message_buttons := Inr []\<rparr>"

definition dead_lead :: lead_page where
  "dead_lead = ok_lead\<lparr>lead_nav := Some WebDriverException\<rparr>"

definition demo_leads :: csv_source where
  "demo_leads =
     Table [u ''Name'', u ''LinkedIn URL'']
       [[u ''Jane Doe'', u ''https://example.org/in/jane''],
        [u ''John Roe'', u ''''],
        [u ''Madonna'', u ''https://example.org/in/madonna'']]"

definition demo_messenger_world :: messenger_world where
  "demo_messenger_world =
     \<lparr>m_chrome = None, m_login = ok_login,
      csv_files = (\<lambda>p. if p = u ''leads.csv'' then demo_leads else Unreadable OSError),
      lead_pages = (\<lambda>i. if i = 0 then ok_lead else closed_lead),
      py_format = (\<lambda>t f. Inr (t @ f)),
      choice_draw = (\<lambda>i. i),
      uniform_draw = (\<lambda>i. 1 / 2)\<rparr>"

definition demo_messenger_config :: MessengerConfig where
  "demo_messenger_config =
     \<lparr>input_csv_path = u ''leads.csv'', output_csv_path_m = u ''out.csv'',
      messages = [u ''Hi ''], min_delay_sec = 2, max_delay_sec = 4\<rparr>"

definition jane_invite :: invite_button where
  "jane_invite = \<lparr>aria_label = Inr (Some (u ''Invite Jane Doe to connect'')),
                   scroll_to = None, click_invite = None\<rparr>"

definition sent_page :: profile_page where
  "sent_page = \<lparr>profile_nav = None, invite_buttons = Inr [jane_invite], dialog = [NotYet, Ready],
                send_without_note = [Ready], scroll_send = None, click_send = None,
                pending_buttons = Inr 0, follow_buttons = Inr 0\<rparr>"

definition stalled_page :: profile_page where
  "stalled_page = sent_page\<lparr>dialog := [NotYet, Fails NoSuchElementException, NotYet]\<rparr>"

definition bare_page :: profile_page where
  "bare_page = sent_page\<lparr>invite_buttons := Inr []\<rparr>"

definition dead_page :: profile_page where
  "dead_page = sent_page\<lparr>profile_nav := Some WebDriverException\<rparr>"

definition jane_card :: card where
  "jane_card = \<lparr>link_href = Inr (Some (u ''https://example.org/in/jane?src=a'')),
                 name_text = Inr (u ''Jane Doe''),
                 primary_subtitle = Inl NoSuchElementException,
                 secondary_subtitle = Inr (u '' Analyst '')\<rparr>"

definition jane_card_again :: card where
  "jane_card_again = jane_card\<lparr>link_href := Inr (Some (u ''https://example.org/in/jane?src=b''))\<rparr>"

definition demo_search_page :: search_page where
  "demo_search_page = \<lparr>search_nav = None, scroll_script = None, jitter = 1 / 4,
                        cards = Inr [jane_card, jane_card_again]\<rparr>"

definition demo_scraper_world :: scraper_world where
  "demo_scraper_world =
     \<lparr>s_chrome = None, s_login = ok_login, search_pages = (\<lambda>p. demo_search_page),
      profile_pages = (\<lambda>i. if i = 0 then sent_page else bare_page)\<rparr>"

definition demo_scraper_config :: ScraperConfig where
  "demo_scraper_config =
     \<lparr>start_page = 1, end_page = 1, scroll_pause = 2, page_load_sleep = 3,
      output_csv_path = Some (u ''leads.csv'')\<rparr>"

definition jane :: profile where
  "jane = \<lparr>Name = u ''Jane Doe'', Title = u ''Analyst'',
            LinkedIn_URL = u ''https://example.org/in/jane''\<rparr>"

text \<open>
  More sample inputs: a page whose only invite button is labelled for someone else,
  the two results of the sample run, worlds in which the page of the second record
  does not load, and a configuration whose delay bounds are the wrong way round.
\<close>

definition john_invite :: invite_button where
  "john_invite = \<lparr>aria_label = Inr (Some (u ''Invite John Roe to connect'')),
                   scroll_to = None, click_invite = None\<rparr>"

definition other_page :: profile_page where
  "other_page = sent_page\<lparr>invite_buttons := Inr [john_invite]\<rparr>"

definition jane_sent :: result where
  "jane_sent = \<lparr>Name = u ''Jane Doe'', Title = u ''Analyst'',
                 LinkedIn_URL = u ''https://example.org/in/jane'',
                 Connection = u ''Connection request sent''\<rparr>"

definition jane_none :: result where
  "jane_none = \<lparr>Name = u ''Jane Doe'', Title = u ''Analyst'',
                 LinkedIn_URL = u ''https://example.org/in/jane'',
                 Connection = u ''No invite option''\<rparr>"

definition crashing_messenger_world :: messenger_world where
  "crashing_messenger_world =
     demo_messenger_world\<lparr>lead_pages := (\<lambda>i. if i = 0 then ok_lead else dead_lead)\<rparr>"

definition crashing_scraper_world :: scraper_world where
  "crashing_scraper_world =
     demo_scraper_world\<lparr>profile_pages := (\<lambda>i. if i = 0 then sent_page else dead_page)\<rparr>"


section \<open>Strings\<close>

text \<open>
  The first token \<open>split\<close> returns is the run of non-whitespace after the
  leading whitespace; a string is blank for \<open>strip\<close> exactly when that run is
  empty. So the first name of a string never raises and is that run.
\<close>

lemma split_scan_tok:
  "tok \<noteq> [] \<Longrightarrow> \<exists>ts. split_scan tok s = (tok @ takeWhile (\<lambda>c. \<not> isspace c) s) # ts"
proof (induction s arbitrary: tok)
  case Nil
  then show ?case by simp
next
  case (Cons a s)
  show ?case
  proof (cases "isspace a")
    case True
    with Cons.prems show ?thesis by simp
  next
    case False
    from Cons.IH[of "tok @ [a]"] obtain ts where
      "split_scan (tok @ [a]) s = ((tok @ [a]) @ takeWhile (\<lambda>c. \<not> isspace c) s) # ts"
      by auto
    with False show ?thesis by simp
  qed
qed

lemma split_scan_empty:
  "split_scan [] s =
     (case dropWhile isspace s of [] \<Rightarrow> [] | c # cs \<Rightarrow> split_scan [c] cs)"
  by (induction s) auto

lemma py_split_first:
  "dropWhile isspace s \<noteq> [] \<Longrightarrow>
     \<exists>ts. py_split s = takeWhile (\<lambda>c. \<not> isspace c) (dropWhile isspace s) # ts"
proof -
  assume "dropWhile isspace s \<noteq> []"
  then obtain c cs where d: "dropWhile isspace s = c # cs" by (cases "dropWhile isspace s") auto
  then have nc: "\<not> isspace c" using hd_dropWhile[of isspace s] by auto
  from d have "py_split s = split_scan [c] cs" by (simp add: py_split_def split_scan_empty)
  with split_scan_tok[of "[c]" cs] d nc show ?thesis by auto
qed

lemma py_strip_blank: "py_strip s = [] \<longleftrightarrow> dropWhile isspace s = []"
proof
  assume a: "py_strip s = []"
  show "dropWhile isspace s = []"
  proof (rule ccontr)
    assume n: "dropWhile isspace s \<noteq> []"
    then have "\<not> isspace (hd (dropWhile isspace s))" by (rule hd_dropWhile)
    moreover have "hd (dropWhile isspace s) \<in> set (dropWhile isspace s)" using n by simp
    moreover from a have "\<forall>x\<in>set (dropWhile isspace s). isspace x"
      by (simp add: py_strip_def)
    ultimately show False by blast
  qed
next
  assume "dropWhile isspace s = []"
  then show "py_strip s = []" by (simp add: py_strip_def del: dropWhile_eq_Nil_conv)
qed

lemma first_name_token:
  "first_name (Str s) = Inr (takeWhile (\<lambda>c. \<not> isspace c) (dropWhile isspace s))"
proof (cases "dropWhile isspace s = []")
  case True
  then show ?thesis by (simp add: first_name_def py_strip_blank del: dropWhile_eq_Nil_conv)
next
  case False
  with py_split_first[OF False] show ?thesis
    by (auto simp: first_name_def py_strip_blank simp del: dropWhile_eq_Nil_conv)
qed

lemma first_name_examples:
  "first_name (Str (u ''Jane Doe'')) = Inr (u ''Jane'')"
  "first_name (Str (u '''')) = Inr (u '''')"
  "first_name (Str (u ''   '')) = Inr (u '''')"
  "first_name (Str (u ''Madonna'')) = Inr (u ''Madonna'')"
  by (simp_all add: first_name_token u_def isspace_def)

lemma first_name_nan: "first_name (Str (py_str NaN)) = Inr (u ''nan'')"
  by (simp add: first_name_token u_def isspace_def)

text \<open>\<open>py_in\<close> is the contiguous-sublist relation of the list library.\<close>

lemma starts_with_prefix: "starts_with n h = prefix n h"
  by (induction n h rule: starts_with.induct) auto

lemma py_in_sublist: "py_in n h = sublist n h"
  by (induction h) (auto simp: starts_with_prefix sublist_Cons_right)

section \<open>Tables and de-duplication\<close>


lemma index_of_None: "index_of c cols = None \<longleftrightarrow> c \<notin> set cols"
  by (induction cols) auto


lemma parse_field_nonempty: "parse_field f \<noteq> Str []"
  by (simp add: parse_field_def na_values_def u_def)

lemma read_line_width: "length fs \<le> n \<Longrightarrow> length (read_line n fs) = n"
  by (simp add: read_line_def)

lemma read_line_cells: "x \<in> set (read_line n fs) \<Longrightarrow> x \<noteq> Str []"
  by (auto simp: read_line_def) (metis parse_field_nonempty)

lemma read_csv_rows:
  assumes "read_csv src = Inr df" and "r \<in> set (rows df)"
  shows "length r = length (columns df)" and "Str [] \<notin> set r"
  using assms
  by (auto simp: read_csv_def list_ex_iff not_less read_line_width
           dest: read_line_cells split: csv_source.splits if_splits)

lemma cell_at_mem: "cell_at r i = NaN \<or> cell_at r i \<in> set r"
  by (simp add: cell_at_def)







section \<open>The record loops\<close>


lemma send_message_label:
  "send_message_to_profile W cfg i url name = Inr s \<Longrightarrow> s \<in> messaging_labels"
  by (auto simp: send_message_to_profile_def messaging_labels_def
           split: option.splits sum.splits bool.splits)



lemma message_leads_Inr:
  "message_leads W cfg cols i rs results slept = (Inr out, sl) \<Longrightarrow>
     \<exists>new. out = results @ new \<and> length new = length rs \<and> set new \<subseteq> messaging_labels \<and>
       sl = slept @ map (\<lambda>k. uniform (min_delay_sec cfg) (max_delay_sec cfg) (uniform_draw W k))
                      [i..<i + length rs]"
proof (induction rs arbitrary: i results slept)
  case Nil
  then show ?case by simp
next
  case (Cons r rs)
  let ?d = "uniform (min_delay_sec cfg) (max_delay_sec cfg) (uniform_draw W i)"
  from Cons.prems obtain name url status where
    st: "send_message_to_profile W cfg i (py_str url) (Str (py_str name)) = Inr status"
    and rest: "message_leads W cfg cols (Suc i) rs (results @ [status]) (slept @ [?d]) = (Inr out, sl)"
    by (auto split: sum.splits option.splits)
  from Cons.IH[OF rest] obtain new where
    n: "out = (results @ [status]) @ new" "length new = length rs" "set new \<subseteq> messaging_labels"
       "sl = (slept @ [?d]) @ map (\<lambda>k. uniform (min_delay_sec cfg) (max_delay_sec cfg) (uniform_draw W k))
                      [Suc i..<Suc i + length rs]"
    by blast
  have "[i..<i + length (r # rs)] = i # [Suc i..<Suc i + length rs]"
    by (simp add: upt_rec)
  with n send_message_label[OF st] show ?case
    by (intro exI[of _ "status # new"]) simp
qed



lemma until_unlocated:
  "list_all (\<lambda>p. p = NotYet \<or> p = Fails NoSuchElementException) ps \<Longrightarrow>
     until ps = Some TimeoutException"
  by (induction ps rule: until.induct) auto

lemma confirm_invite_Inr: "confirm_invite pg = Inr s \<Longrightarrow> s = u ''Connection request sent''"
  by (auto simp: confirm_invite_def split: option.splits)

lemma invite_flow_Inr: "invite_flow name pg = Inr s \<Longrightarrow> s = u ''Connection request sent''"
  by (auto simp: invite_flow_def dest: confirm_invite_Inr split: option.splits sum.splits)

lemma fallback_detection_Inr:
  "fallback_detection pg = Inr s \<Longrightarrow>
     s \<in> {u ''Request Sent'', u ''Not connected - follow only'', u ''No invite option''}"
  by (auto simp: fallback_detection_def split: sum.splits if_splits)

lemma connection_status_label:
  "connection_status name pg = Inr s \<Longrightarrow> s \<in> connection_labels"
  unfolding connection_status_def connection_labels_def
  by (auto split: sum.splits if_splits dest!: invite_flow_Inr fallback_detection_Inr)



lemma profile_of_entry:
  "profile_of \<lparr>Name = Name entry, Title = Title entry,
                LinkedIn_URL = LinkedIn_URL entry, Connection = status\<rparr> = entry"
  by (simp add: profile_of_def)

lemma connect_profiles_Inr:
  "connect_profiles W cfg i ps results slept = (Inr out, sl) \<Longrightarrow>
     \<exists>new. out = results @ new \<and> map profile_of new = ps \<and>
       (\<forall>r\<in>set new. Connection r \<in> connection_labels) \<and>
       sl = slept @ replicate (length ps) (page_load_sleep cfg)"
proof (induction ps arbitrary: i results slept)
  case Nil
  then show ?case by simp
next
  case (Cons entry ps)
  let ?r = "\<lambda>status. \<lparr>Name = Name entry, Title = Title entry,
                 LinkedIn_URL = LinkedIn_URL entry, Connection = status\<rparr>"
  from Cons.prems obtain status where
    st: "connection_status (Name entry) (profile_pages W i) = Inr status"
    and rest: "connect_profiles W cfg (Suc i) ps (results @ [?r status])
                 (slept @ [page_load_sleep cfg]) = (Inr out, sl)"
    by (auto split: sum.splits option.splits)
  from Cons.IH[OF rest] obtain new where
    n: "out = (results @ [?r status]) @ new" "map profile_of new = ps"
       "\<forall>r\<in>set new. Connection r \<in> connection_labels"
       "sl = (slept @ [page_load_sleep cfg]) @ replicate (length ps) (page_load_sleep cfg)"
    by blast
  with connection_status_label[OF st] show ?case
    by (intro exI[of _ "?r status # new"]) (simp add: profile_of_entry replicate_app_Cons_same)
qed






section \<open>The sample runs\<close>

text \<open>The runs on the sample inputs, computed by unfolding the definitions.\<close>

lemmas demo_messenger_defs =
  demo_messenger_world_def demo_messenger_config_def demo_leads_def ok_login_def ok_button_def
  ok_lead_def closed_lead_def dead_lead_def

lemmas messenger_defs =
  LinkedInMessenger_run_def LinkedInMessenger_login_def load_leads_def read_csv_def
  read_line_def parse_field_def na_values_def dropna_def cell_at_def getitem_def setitem_def
  send_message_to_profile_def first_name_token open_message_def write_message_def
  submit_message_def box_cleared_def py_strip_def isspace_def sleep_def uniform_def u_def

lemma demo_messenger_run:
  "LinkedInMessenger_run demo_messenger_world demo_messenger_config =
     \<lparr>returned = Inr (u ''out.csv''),
      written = [(u ''out.csv'',
        \<lparr>columns = [u ''Name'', u ''LinkedIn URL'', u ''Result''],
         rows = [[Str (u ''Jane Doe''), Str (u ''https://example.org/in/jane''), Str (u ''Message Sent'')],
                 [Str (u ''Madonna''), Str (u ''https://example.org/in/madonna''), Str (u ''Failed'')]]\<rparr>)],
      paced = [3, 3]\<rparr>"
  by (simp add: demo_messenger_defs messenger_defs)

lemmas demo_scraper_defs =
  demo_scraper_world_def demo_scraper_config_def demo_search_page_def jane_card_def
  jane_card_again_def sent_page_def stalled_page_def bare_page_def dead_page_def
  jane_invite_def ok_login_def jane_def

lemmas scraper_defs =
  LinkedInScraper_run_def LinkedInScraper_login_def scrape_search_pages_def scrape_card_def
  card_title_def before_query_def send_connection_requests_def connection_status_def
  invite_flow_def confirm_invite_def fallback_detection_def save_results_to_csv_def
  results_frame_def drop_duplicates_def cell_at_def py_strip_def isspace_def sleep_def u_def

lemma demo_scrape:
  "scrape_search_pages demo_scraper_world demo_scraper_config = Inr [jane, jane]"
  by (simp add: demo_scraper_defs scraper_defs)

lemma demo_scraper_run:
  "LinkedInScraper_run demo_scraper_world demo_scraper_config =
     \<lparr>returned = Inr [\<lparr>Name = u ''Jane Doe'', Title = u ''Analyst'',
                        LinkedIn_URL = u ''https://example.org/in/jane'',
                        Connection = u ''Connection request sent''\<rparr>,
                       \<lparr>Name = u ''Jane Doe'', Title = u ''Analyst'',
                        LinkedIn_URL = u ''https://example.org/in/jane'',
                        Connection = u ''No invite option''\<rparr>],
      written = [(u ''leads.csv'',
         \<lparr>columns = [u ''Name'', u ''Title'', u ''LinkedIn URL'', u ''Connection''],
          rows = [[Str (u ''Jane Doe''), Str (u ''Analyst''), Str (u ''https://example.org/in/jane''),
                   Str (u ''Connection request sent'')]]\<rparr>)],
      paced = [3, 3]\<rparr>"
  by (simp add: demo_scraper_defs scraper_defs)

lemma stalled:
  "connection_status (u ''Jane Doe'') stalled_page = Inr (u ''No invite option'')"
  by (simp add: demo_scraper_defs scraper_defs)

section \<open>Loading, saving and the two runs\<close>




lemma keep_first_map:
  assumes "\<And>x. k' (f x) = g (k x)" and "inj g"
  shows "keep_first k' (map g seen) (map f xs) = map f (keep_first k seen xs)"
proof (induction xs arbitrary: seen)
  case Nil
  then show ?case by simp
next
  case (Cons x xs)
  have "g (k x) \<in> g ` set seen \<longleftrightarrow> k x \<in> set seen"
    using assms(2) by (auto dest: injD)
  with Cons[of "k x # seen"] Cons[of seen] assms(1) show ?case by simp
qed

lemma url_index:
  "index_of (u ''LinkedIn URL'') [u ''Name'', u ''Title'', u ''LinkedIn URL'', u ''Connection'']
     = Some 2"
  by (simp add: u_def)

lemma drop_duplicates_results:
  "drop_duplicates (u ''LinkedIn URL'') (results_frame rs) = Inr (results_frame (dedupe rs))"
proof -
  let ?f = "\<lambda>r. [Str (Name r), Str (Title r), Str (LinkedIn_URL r), Str (Connection r)]"
  have "keep_first (\<lambda>r. cell_at r 2) (map Str []) (map ?f rs)
          = map ?f (keep_first LinkedIn_URL [] rs)"
    by (rule keep_first_map) (auto simp: cell_at_def inj_on_def)
  then show ?thesis
    using url_index by (simp add: drop_duplicates_def results_frame_def dedupe_def)
qed


lemma save_results_path:
  "save_results_to_csv cfg rs (Some p) = Inr (p, results_frame (dedupe rs))"
  by (simp add: save_results_to_csv_def drop_duplicates_results)

lemma select_invite_None:
  "select_invite name bs = Inr None \<longleftrightarrow>
     (\<forall>b\<in>set bs. \<exists>lab. aria_label b = Inr lab \<and>
        \<not> py_in name (case lab of None \<Rightarrow> [] | Some l \<Rightarrow> l))"
  by (induction bs) (auto split: sum.splits)

lemma send_connection_requests_Inr:
  assumes "send_connection_requests W cfg ps = (Inr rs, sl)"
  shows "map profile_of rs = ps" and "\<forall>r\<in>set rs. Connection r \<in> connection_labels"
    and "sl = replicate (length ps) (page_load_sleep cfg)"
  using connect_profiles_Inr[of W cfg 0 ps "[]" "[]" rs sl] assms
  by (auto simp: send_connection_requests_def)





lemma messenger_run_Inr:
  assumes "returned (LinkedInMessenger_run M cfg) = Inr p"
  shows "\<exists>df results sl out.
           load_leads (csv_files M (input_csv_path cfg)) = Inr df \<and>
           message_leads M cfg (columns df) 0 (rows df) [] [] = (Inr results, sl) \<and>
           setitem (u ''Result'') (map Str results) df = Inr out \<and>
           p = output_csv_path_m cfg \<and>
           written (LinkedInMessenger_run M cfg) = [(p, out)] \<and>
           paced (LinkedInMessenger_run M cfg) = sl"
  using assms
  by (auto simp: LinkedInMessenger_run_def split: option.splits sum.splits prod.splits)

lemma messenger_run_written:
  assumes "f \<in> set (written (LinkedInMessenger_run M cfg))"
  shows "\<exists>p. returned (LinkedInMessenger_run M cfg) = Inr p \<and>
           written (LinkedInMessenger_run M cfg) = [f]"
  using assms
  by (auto simp: LinkedInMessenger_run_def split: option.splits sum.splits prod.splits)



lemma scraper_run_Inr:
  assumes "returned (LinkedInScraper_run W cfg) = Inr rs"
  shows "\<exists>ps sl. scrape_search_pages W cfg = Inr ps \<and>
           send_connection_requests W cfg ps = (Inr rs, sl) \<and>
           paced (LinkedInScraper_run W cfg) = sl \<and>
           written (LinkedInScraper_run W cfg) =
             (case output_csv_path cfg of
                None \<Rightarrow> []
              | Some p \<Rightarrow> if p = [] then [] else [(p, results_frame (dedupe rs))])"
  using assms
  by (auto simp: LinkedInScraper_run_def save_results_path
           split: option.splits sum.splits prod.splits if_splits)

lemma scraper_run_written:
  assumes "f \<in> set (written (LinkedInScraper_run W cfg))"
  shows "\<exists>rs. returned (LinkedInScraper_run W cfg) = Inr rs \<and>
           written (LinkedInScraper_run W cfg) = [f]"
  using assms
  by (auto simp: LinkedInScraper_run_def save_results_path
           split: option.splits sum.splits prod.splits if_splits)



lemma crashing_messenger_run:
  "LinkedInMessenger_run crashing_messenger_world demo_messenger_config =
     \<lparr>returned = Inl WebDriverException, written = [], paced = [3]\<rparr>"
  by (simp add: crashing_messenger_world_def demo_messenger_defs messenger_defs)

lemma crashing_scraper_run:
  "LinkedInScraper_run crashing_scraper_world demo_scraper_config =
     \<lparr>returned = Inl WebDriverException, written = [], paced = [3]\<rparr>"
  by (simp add: crashing_scraper_world_def demo_scraper_defs scraper_defs)


section \<open>The claims\<close>

subsection \<open>C1: every record that enters a stage run leaves it with one outcome label\<close>



subsection \<open>C2: failures while a record is processed\<close>




subsection \<open>C3: failures after the invite button was clicked\<close>

text \<open>
  C3 as stated: after the invite button was found and clicked, failing to locate the
  dialog or the button to send without a note gives \<open>Error - element missing\<close>.
  Both are awaited with \<open>WebDriverWait.until\<close>, which swallows the lookup failure
  and ends in \<open>TimeoutException\<close>, and the handler of that exception is the
  fallback detection. In the sample the button is found and clicked, the dialog never
  shows, and the status is \<open>No invite option\<close>.
\<close>

theorem unlocated_dialog_goes_to_fallback:
  "invite_buttons stalled_page = Inr [jane_invite] \<and>
   select_invite (u ''Jane Doe'') [jane_invite] = Inr (Some jane_invite) \<and>
   steps [scroll_to jane_invite, click_invite jane_invite] = None \<and>
   until (dialog stalled_page) = Some TimeoutException \<and>
   connection_status (u ''Jane Doe'') stalled_page = Inr (u ''No invite option'') \<and>
   connection_status (u ''Jane Doe'') stalled_page \<noteq> Inr (u ''Error - element missing'')"
proof -
  have "invite_buttons stalled_page = Inr [jane_invite]"
    by (simp add: stalled_page_def sent_page_def)
  moreover have "select_invite (u ''Jane Doe'') [jane_invite] = Inr (Some jane_invite)"
    by (simp add: jane_invite_def u_def)
  moreover have "steps [scroll_to jane_invite, click_invite jane_invite] = None"
    by (simp add: jane_invite_def)
  moreover have "until (dialog stalled_page) = Some TimeoutException"
    by (simp add: stalled_page_def)
  moreover have "u ''No invite option'' \<noteq> u ''Error - element missing''"
    by (simp add: u_def)
  ultimately show ?thesis using stalled by simp
qed

text \<open>
  C3, amended: after the invite button was found and clicked, a
  \<open>NoSuchElementException\<close> that escapes a later step gives
  \<open>Error - element missing\<close>, any other exception but a timeout gives
  \<open>Error - unexpected\<close>, and a dialog or send button that is not located within
  the wait raises \<open>TimeoutException\<close>, for which the status is the one of the
  fallback detection.
\<close>

theorem failures_after_invite_click:
  assumes "invite_buttons pg = Inr bs" and "select_invite name bs = Inr (Some b)"
    and "steps [scroll_to b, click_invite b] = None"
  shows "(confirm_invite pg = Inl NoSuchElementException \<longrightarrow>
            connection_status name pg = Inr (u ''Error - element missing'')) \<and>
         (\<forall>e. confirm_invite pg = Inl e \<and> e \<noteq> TimeoutException \<and> e \<noteq> NoSuchElementException \<longrightarrow>
            connection_status name pg = Inr (u ''Error - unexpected'')) \<and>
         (confirm_invite pg = Inl TimeoutException \<longrightarrow>
            connection_status name pg = fallback_detection pg) \<and>
         (list_all (\<lambda>p. p = NotYet \<or> p = Fails NoSuchElementException) (dialog pg) \<longrightarrow>
            confirm_invite pg = Inl TimeoutException) \<and>
         (until (dialog pg) = None \<and>
          list_all (\<lambda>p. p = NotYet \<or> p = Fails NoSuchElementException) (send_without_note pg) \<longrightarrow>
            confirm_invite pg = Inl TimeoutException) \<and>
         (\<forall>s. confirm_invite pg = Inr s \<longrightarrow>
            connection_status name pg = Inr (u ''Connection request sent''))"
proof -
  from assms have flow: "invite_flow name pg = confirm_invite pg"
    by (simp add: invite_flow_def)
  have 1: "confirm_invite pg = Inl TimeoutException"
    if "list_all (\<lambda>p. p = NotYet \<or> p = Fails NoSuchElementException) (dialog pg)"
    using until_unlocated[OF that] by (simp add: confirm_invite_def)
  have 2: "confirm_invite pg = Inl TimeoutException"
    if "until (dialog pg) = None"
      and "list_all (\<lambda>p. p = NotYet \<or> p = Fails NoSuchElementException) (send_without_note pg)"
    using until_unlocated[OF that(2)] that(1) by (simp add: confirm_invite_def)
  have 3: "connection_status name pg = Inr (u ''Connection request sent'')"
    if "confirm_invite pg = Inr s" for s
    using that confirm_invite_Inr[OF that] flow by (simp add: connection_status_def)
  from flow 1 2 3 show ?thesis
    by (auto simp: connection_status_def)
qed

theorem failures_after_invite_click_witness:
  "connection_status (u ''Jane Doe'') stalled_page = fallback_detection stalled_page \<and>
   confirm_invite stalled_page = Inl TimeoutException \<and>
   connection_status (u ''Jane Doe'') (sent_page\<lparr>click_send := Some NoSuchElementException\<rparr>)
     = Inr (u ''Error - element missing'') \<and>
   connection_status (u ''Jane Doe'') (sent_page\<lparr>click_send := Some StaleElementReferenceException\<rparr>)
     = Inr (u ''Error - unexpected'') \<and>
   connection_status (u ''Jane Doe'') sent_page = Inr (u ''Connection request sent'')"
proof -
  have s: "select_invite (u ''Jane Doe'') [jane_invite] = Inr (Some jane_invite)"
    by (simp add: jane_invite_def u_def)
  have c: "steps [scroll_to jane_invite, click_invite jane_invite] = None"
    by (simp add: jane_invite_def)
  have b: "invite_buttons stalled_page = Inr [jane_invite]"
    "invite_buttons (sent_page\<lparr>click_send := Some NoSuchElementException\<rparr>) = Inr [jane_invite]"
    "invite_buttons (sent_page\<lparr>click_send := Some StaleElementReferenceException\<rparr>) = Inr [jane_invite]"
    "invite_buttons sent_page = Inr [jane_invite]"
    by (simp_all add: stalled_page_def sent_page_def)
  have d: "list_all (\<lambda>p. p = NotYet \<or> p = Fails NoSuchElementException) (dialog stalled_page)"
    by (simp add: stalled_page_def)
  from failures_after_invite_click[OF b(1) s c] d
  have 1: "confirm_invite stalled_page = Inl TimeoutException"
    "connection_status (u ''Jane Doe'') stalled_page = fallback_detection stalled_page"
    by simp_all
  have "confirm_invite (sent_page\<lparr>click_send := Some NoSuchElementException\<rparr>)
          = Inl NoSuchElementException"
    by (simp add: confirm_invite_def sent_page_def)
  with failures_after_invite_click[OF b(2) s c]
  have 2: "connection_status (u ''Jane Doe'') (sent_page\<lparr>click_send := Some NoSuchElementException\<rparr>)
     = Inr (u ''Error - element missing'')" by simp
  have "confirm_invite (sent_page\<lparr>click_send := Some StaleElementReferenceException\<rparr>)
          = Inl StaleElementReferenceException"
    by (simp add: confirm_invite_def sent_page_def)
  with failures_after_invite_click[OF b(3) s c]
  have 3: "connection_status (u ''Jane Doe'')
             (sent_page\<lparr>click_send := Some StaleElementReferenceException\<rparr>)
     = Inr (u ''Error - unexpected'')" by simp
  have "confirm_invite sent_page = Inr (u ''Connection request sent'')"
    by (simp add: confirm_invite_def sent_page_def)
  with failures_after_invite_click[OF b(4) s c]
  have 4: "connection_status (u ''Jane Doe'') sent_page = Inr (u ''Connection request sent'')"
    by simp
  from 1 2 3 4 show ?thesis by simp
qed

subsection \<open>C4: loading the leads\<close>

text \<open>
  C4. When the file can be read, loading fails with \<open>ValueError\<close> if the column
  \<open>Name\<close> or the column \<open>LinkedIn URL\<close> is absent; with both present it
  returns exactly the rows whose \<open>LinkedIn URL\<close> is not missing, and in each of
  them that cell is a non-empty string (an empty field is read as missing). The sample
  file has three rows, one without an address: two rows are loaded and classified.
\<close>

theorem load_checks_columns_and_drops_missing_urls:
  assumes "read_csv src = Inr df0"
  shows "(u ''Name'' \<notin> set (columns df0) \<or> u ''LinkedIn URL'' \<notin> set (columns df0)
            \<longrightarrow> load_leads src = Inl ValueError) \<and>
         (u ''Name'' \<in> set (columns df0) \<and> u ''LinkedIn URL'' \<in> set (columns df0) \<longrightarrow>
            (\<exists>df. load_leads src = Inr df \<and> columns df = columns df0 \<and>
               rows df = filter (\<lambda>r. getitem (columns df0) r (u ''LinkedIn URL'') \<noteq> Inr NaN)
                           (rows df0) \<and>
               (\<forall>r\<in>set (rows df).
                  \<exists>s. getitem (columns df) r (u ''LinkedIn URL'') = Inr (Str s) \<and> s \<noteq> [])))"
proof (intro conjI impI)
  assume "u ''Name'' \<notin> set (columns df0) \<or> u ''LinkedIn URL'' \<notin> set (columns df0)"
  with assms show "load_leads src = Inl ValueError"
    by (auto simp: load_leads_def)
next
  assume cols: "u ''Name'' \<in> set (columns df0) \<and> u ''LinkedIn URL'' \<in> set (columns df0)"
  then obtain i where i: "index_of (u ''LinkedIn URL'') (columns df0) = Some i"
    using index_of_None by (metis option.exhaust)
  let ?df = "df0\<lparr>rows := filter (\<lambda>r. cell_at r i \<noteq> NaN) (rows df0)\<rparr>"
  from assms cols i have load: "load_leads src = Inr ?df"
    by (simp add: load_leads_def dropna_def)
  have "\<exists>s. getitem (columns ?df) r (u ''LinkedIn URL'') = Inr (Str s) \<and> s \<noteq> []"
    if r: "r \<in> set (rows ?df)" for r
  proof -
    from r have r0: "r \<in> set (rows df0)" and n: "cell_at r i \<noteq> NaN" by auto
    then obtain s where s: "cell_at r i = Str s" by (cases "cell_at r i") auto
    with cell_at_mem[of r i] have "Str s \<in> set r" by auto
    with read_csv_rows(2)[OF assms r0] have "s \<noteq> []" by auto
    with s i show ?thesis by (simp add: getitem_def)
  qed
  with load i show "\<exists>df. load_leads src = Inr df \<and> columns df = columns df0 \<and>
               rows df = filter (\<lambda>r. getitem (columns df0) r (u ''LinkedIn URL'') \<noteq> Inr NaN)
                           (rows df0) \<and>
               (\<forall>r\<in>set (rows df).
                  \<exists>s. getitem (columns df) r (u ''LinkedIn URL'') = Inr (Str s) \<and> s \<noteq> [])"
    by (intro exI[of _ ?df]) (simp add: getitem_def)
qed

theorem load_checks_columns_and_drops_missing_urls_witness:
  "load_leads (Table [u ''Name'', u ''Title''] [[u ''Jane Doe'', u ''Analyst'']]) = Inl ValueError \<and>
   length (rows (projr (read_csv demo_leads))) = 3 \<and>
   load_leads demo_leads =
     Inr \<lparr>columns = [u ''Name'', u ''LinkedIn URL''],
          rows = [[Str (u ''Jane Doe''), Str (u ''https://example.org/in/jane'')],
                  [Str (u ''Madonna''), Str (u ''https://example.org/in/madonna'')]]\<rparr> \<and>
   map (\<lambda>r. getitem [u ''Name'', u ''LinkedIn URL'', u ''Result''] r (u ''Result''))
     (rows (snd (hd (written (LinkedInMessenger_run demo_messenger_world demo_messenger_config)))))
     = [Inr (Str (u ''Message Sent'')), Inr (Str (u ''Failed''))]"
proof -
  have a: "read_csv (Table [u ''Name'', u ''Title''] [[u ''Jane Doe'', u ''Analyst'']]) =
      Inr \<lparr>columns = [u ''Name'', u ''Title''], rows = [[Str (u ''Jane Doe''), Str (u ''Analyst'')]]\<rparr>"
    by (simp add: read_csv_def read_line_def parse_field_def na_values_def u_def)
  have b: "read_csv demo_leads =
      Inr \<lparr>columns = [u ''Name'', u ''LinkedIn URL''],
          rows = [[Str (u ''Jane Doe''), Str (u ''https://example.org/in/jane'')],
                  [Str (u ''John Roe''), NaN],
                  [Str (u ''Madonna''), Str (u ''https://example.org/in/madonna'')]]\<rparr>"
    by (simp add: demo_leads_def read_csv_def read_line_def parse_field_def na_values_def u_def)
  from load_checks_columns_and_drops_missing_urls[OF a]
  have 1: "load_leads (Table [u ''Name'', u ''Title''] [[u ''Jane Doe'', u ''Analyst'']]) = Inl ValueError"
    by (simp add: u_def)
  from load_checks_columns_and_drops_missing_urls[OF b]
  have 2: "load_leads demo_leads =
     Inr \<lparr>columns = [u ''Name'', u ''LinkedIn URL''],
          rows = [[Str (u ''Jane Doe''), Str (u ''https://example.org/in/jane'')],
                  [Str (u ''Madonna''), Str (u ''https://example.org/in/madonna'')]]\<rparr>"
    by (auto simp: getitem_def cell_at_def u_def)
  show ?thesis using 1 2 b
    by (simp add: demo_messenger_run getitem_def cell_at_def) (simp add: u_def)
qed

subsection \<open>C5: the first name\<close>

text \<open>
  C5. The first name is the first whitespace-delimited token of the name, and empty
  for an absent name. For a string this is \<open>first_name_token\<close> above, with the
  four examples in \<open>first_name_examples\<close>. For an absent name the code differs:
  \<open>send_message_to_profile\<close> would give the empty string for a value that is not
  a string, but \<open>run\<close> passes \<open>str(row["Name"])\<close>, and \<open>str\<close> of the
  missing value is the text \<open>nan\<close>, so the first name of a row without a name is
  \<open>nan\<close>.
\<close>

theorem missing_name_greeted_as_nan:
  "getitem [u ''Name'', u ''LinkedIn URL''] [NaN, Str (u ''https://example.org/in/jane'')] (u ''Name'')
     = Inr NaN \<and>
   first_name (Str (py_str NaN)) = Inr (u ''nan'') \<and>
   first_name NaN = Inr []"
proof -
  have "first_name NaN = Inr []" by (simp add: first_name_def)
  moreover have "getitem [u ''Name'', u ''LinkedIn URL'']
      [NaN, Str (u ''https://example.org/in/jane'')] (u ''Name'') = Inr NaN"
    by (simp add: getitem_def cell_at_def)
  ultimately show ?thesis using first_name_nan by simp
qed

subsection \<open>C6: no matching invite button\<close>

text \<open>
  C6. When the invite lookup returns and no button is selected, which is the case
  exactly when every button found has a readable label that does not contain the name
  (no button at all included), the status is the one of the fallback detection:
  \<open>Request Sent\<close> with a Pending button, else \<open>Not connected - follow only\<close>
  with a Follow button, else \<open>No invite option\<close>.
\<close>

theorem no_matching_invite_falls_back:
  assumes "invite_buttons pg = Inr bs" and "select_invite name bs = Inr None"
  shows "(\<forall>b\<in>set bs. \<exists>lab. aria_label b = Inr lab \<and>
            \<not> py_in name (case lab of None \<Rightarrow> [] | Some l \<Rightarrow> l)) \<and>
         connection_status name pg = fallback_detection pg \<and>
         (\<forall>n. pending_buttons pg = Inr n \<and> 0 < n \<longrightarrow>
            connection_status name pg = Inr (u ''Request Sent'')) \<and>
         (\<forall>m. pending_buttons pg = Inr 0 \<and> follow_buttons pg = Inr m \<and> 0 < m \<longrightarrow>
            connection_status name pg = Inr (u ''Not connected - follow only'')) \<and>
         (pending_buttons pg = Inr 0 \<and> follow_buttons pg = Inr 0 \<longrightarrow>
            connection_status name pg = Inr (u ''No invite option''))"
proof -
  from assms have st: "connection_status name pg = fallback_detection pg"
    by (simp add: connection_status_def invite_flow_def)
  from assms(2) have "\<forall>b\<in>set bs. \<exists>lab. aria_label b = Inr lab \<and>
            \<not> py_in name (case lab of None \<Rightarrow> [] | Some l \<Rightarrow> l)"
    by (simp add: select_invite_None)
  with st show ?thesis by (simp add: fallback_detection_def)
qed

theorem no_matching_invite_falls_back_witness:
  "select_invite (u ''Jane Doe'') [john_invite] = Inr None \<and>
   connection_status (u ''Jane Doe'') other_page = Inr (u ''No invite option'') \<and>
   connection_status (u ''Jane Doe'') (other_page\<lparr>pending_buttons := Inr 1\<rparr>) = Inr (u ''Request Sent'') \<and>
   connection_status (u ''Jane Doe'') (other_page\<lparr>follow_buttons := Inr 1\<rparr>)
     = Inr (u ''Not connected - follow only'')"
proof -
  have s: "select_invite (u ''Jane Doe'') [john_invite] = Inr None"
    by (simp add: john_invite_def u_def)
  have b: "invite_buttons other_page = Inr [john_invite]"
    "invite_buttons (other_page\<lparr>pending_buttons := Inr 1\<rparr>) = Inr [john_invite]"
    "invite_buttons (other_page\<lparr>follow_buttons := Inr 1\<rparr>) = Inr [john_invite]"
    by (simp_all add: other_page_def)
  have p: "pending_buttons other_page = Inr 0" "follow_buttons other_page = Inr 0"
    by (simp_all add: other_page_def sent_page_def)
  from no_matching_invite_falls_back[OF b(1) s] p
  have 1: "connection_status (u ''Jane Doe'') other_page = Inr (u ''No invite option'')" by blast
  have p2: "pending_buttons (other_page\<lparr>pending_buttons := Inr 1\<rparr>) = Inr 1" "0 < (1::nat)"
    by simp_all
  from no_matching_invite_falls_back[OF b(2) s] p2
  have 2: "connection_status (u ''Jane Doe'') (other_page\<lparr>pending_buttons := Inr 1\<rparr>)
             = Inr (u ''Request Sent'')" by blast
  have p3: "pending_buttons (other_page\<lparr>follow_buttons := Inr 1\<rparr>) = Inr 0"
    "follow_buttons (other_page\<lparr>follow_buttons := Inr 1\<rparr>) = Inr 1"
    by (simp_all add: other_page_def sent_page_def)
  from no_matching_invite_falls_back[OF b(3) s] p3 p2(2)
  have 3: "connection_status (u ''Jane Doe'') (other_page\<lparr>follow_buttons := Inr 1\<rparr>)
     = Inr (u ''Not connected - follow only'')" by blast
  from s 1 2 3 show ?thesis by simp
qed

subsection \<open>C7: the output file is written once, after the loop\<close>

text \<open>
  C7. Each stage run writes at most one file; a run that ends with an exception, in
  particular one raised inside the record loop, has written none; and a file that was
  written was written after the loop had gone through every record.
\<close>

theorem output_written_once_after_the_loop:
  "length (written (LinkedInMessenger_run M mcfg)) \<le> 1 \<and>
   (\<forall>e. returned (LinkedInMessenger_run M mcfg) = Inl e \<longrightarrow>
      written (LinkedInMessenger_run M mcfg) = []) \<and>
   (\<forall>df e. load_leads (csv_files M (input_csv_path mcfg)) = Inr df \<and>
      fst (message_leads M mcfg (columns df) 0 (rows df) [] []) = Inl e \<longrightarrow>
      written (LinkedInMessenger_run M mcfg) = []) \<and>
   (\<forall>f\<in>set (written (LinkedInMessenger_run M mcfg)).
      \<exists>df results sl. load_leads (csv_files M (input_csv_path mcfg)) = Inr df \<and>
        message_leads M mcfg (columns df) 0 (rows df) [] [] = (Inr results, sl) \<and>
        length results = length (rows df) \<and>
        setitem (u ''Result'') (map Str results) df = Inr (snd f)) \<and>
   length (written (LinkedInScraper_run W cfg)) \<le> 1 \<and>
   (\<forall>e. returned (LinkedInScraper_run W cfg) = Inl e \<longrightarrow>
      written (LinkedInScraper_run W cfg) = []) \<and>
   (\<forall>ps e. scrape_search_pages W cfg = Inr ps \<and>
      fst (send_connection_requests W cfg ps) = Inl e \<longrightarrow>
      written (LinkedInScraper_run W cfg) = []) \<and>
   (\<forall>f\<in>set (written (LinkedInScraper_run W cfg)).
      \<exists>ps rs sl. scrape_search_pages W cfg = Inr ps \<and>
        send_connection_requests W cfg ps = (Inr rs, sl) \<and>
        length rs = length ps \<and> snd f = results_frame (dedupe rs))"
proof -
  have m1: "length (written (LinkedInMessenger_run M mcfg)) \<le> 1"
    by (auto simp: LinkedInMessenger_run_def split: option.splits sum.splits prod.splits)
  have m2: "written (LinkedInMessenger_run M mcfg) = []"
    if "returned (LinkedInMessenger_run M mcfg) = Inl e" for e
    using that messenger_run_written[of _ M mcfg]
    by (cases "written (LinkedInMessenger_run M mcfg)") auto
  have m3: "written (LinkedInMessenger_run M mcfg) = []"
    if "load_leads (csv_files M (input_csv_path mcfg)) = Inr df"
      and "fst (message_leads M mcfg (columns df) 0 (rows df) [] []) = Inl e" for df e
    using that
    by (auto simp: LinkedInMessenger_run_def split: option.splits sum.splits prod.splits)
  have m4: "\<exists>df results sl. load_leads (csv_files M (input_csv_path mcfg)) = Inr df \<and>
        message_leads M mcfg (columns df) 0 (rows df) [] [] = (Inr results, sl) \<and>
        length results = length (rows df) \<and>
        setitem (u ''Result'') (map Str results) df = Inr (snd f)"
    if f: "f \<in> set (written (LinkedInMessenger_run M mcfg))" for f
  proof -
    from messenger_run_written[OF f] obtain p where
      p: "returned (LinkedInMessenger_run M mcfg) = Inr p"
         "written (LinkedInMessenger_run M mcfg) = [f]" by blast
    from messenger_run_Inr[OF p(1)] p(2) obtain df results sl where
      h: "load_leads (csv_files M (input_csv_path mcfg)) = Inr df"
         "message_leads M mcfg (columns df) 0 (rows df) [] [] = (Inr results, sl)"
         "setitem (u ''Result'') (map Str results) df = Inr (snd f)" by auto
    from message_leads_Inr[OF h(2)] have "length results = length (rows df)" by auto
    with h show ?thesis by blast
  qed
  have s1: "length (written (LinkedInScraper_run W cfg)) \<le> 1"
    by (auto simp: LinkedInScraper_run_def split: option.splits sum.splits prod.splits)
  have s2: "written (LinkedInScraper_run W cfg) = []"
    if "returned (LinkedInScraper_run W cfg) = Inl e" for e
    using that scraper_run_written[of _ W cfg]
    by (cases "written (LinkedInScraper_run W cfg)") auto
  have s3: "written (LinkedInScraper_run W cfg) = []"
    if "scrape_search_pages W cfg = Inr ps"
      and "fst (send_connection_requests W cfg ps) = Inl e" for ps e
    using that
    by (auto simp: LinkedInScraper_run_def split: option.splits sum.splits prod.splits)
  have s4: "\<exists>ps rs sl. scrape_search_pages W cfg = Inr ps \<and>
        send_connection_requests W cfg ps = (Inr rs, sl) \<and>
        length rs = length ps \<and> snd f = results_frame (dedupe rs)"
    if f: "f \<in> set (written (LinkedInScraper_run W cfg))" for f
  proof -
    from scraper_run_written[OF f] obtain rs where
      r: "returned (LinkedInScraper_run W cfg) = Inr rs"
         "written (LinkedInScraper_run W cfg) = [f]" by blast
    from scraper_run_Inr[OF r(1)] r(2) obtain ps sl where
      h: "scrape_search_pages W cfg = Inr ps"
         "send_connection_requests W cfg ps = (Inr rs, sl)"
         "snd f = results_frame (dedupe rs)"
      by (auto split: option.splits if_splits)
    from send_connection_requests_Inr(1)[OF h(2)] have "length rs = length ps" by auto
    with h show ?thesis by blast
  qed
  from m1 m2 m3 m4 s1 s2 s3 s4 show ?thesis by blast
qed

theorem output_written_once_after_the_loop_witness:
  "returned (LinkedInMessenger_run crashing_messenger_world demo_messenger_config)
     = Inl WebDriverException \<and>
   paced (LinkedInMessenger_run crashing_messenger_world demo_messenger_config) = [3] \<and>
   written (LinkedInMessenger_run crashing_messenger_world demo_messenger_config) = [] \<and>
   returned (LinkedInScraper_run crashing_scraper_world demo_scraper_config)
     = Inl WebDriverException \<and>
   written (LinkedInScraper_run crashing_scraper_world demo_scraper_config) = [] \<and>
   length (written (LinkedInMessenger_run demo_messenger_world demo_messenger_config)) = 1 \<and>
   length (written (LinkedInScraper_run demo_scraper_world demo_scraper_config)) = 1"
proof -
  have m: "returned (LinkedInMessenger_run crashing_messenger_world demo_messenger_config)
     = Inl WebDriverException"
    "paced (LinkedInMessenger_run crashing_messenger_world demo_messenger_config) = [3]"
    by (simp_all add: crashing_messenger_run)
  have s: "returned (LinkedInScraper_run crashing_scraper_world demo_scraper_config)
     = Inl WebDriverException"
    by (simp add: crashing_scraper_run)
  from output_written_once_after_the_loop[where M = crashing_messenger_world
      and mcfg = demo_messenger_config and W = crashing_scraper_world and cfg = demo_scraper_config]
    m s
  have "written (LinkedInMessenger_run crashing_messenger_world demo_messenger_config) = []"
    and "written (LinkedInScraper_run crashing_scraper_world demo_scraper_config) = []"
    by blast+
  with m s show ?thesis by (simp add: demo_messenger_run demo_scraper_run)
qed

subsection \<open>C8: the pacing delay\<close>




subsection \<open>C9: de-duplication\<close>



subsection \<open>C10: the value returned by the scraper run\<close>

text \<open>
  C10. When the scraper run returns, the value returned is the list of results of the
  connection stage, one for each scraped profile in the order of processing,
  duplicates of a \<open>LinkedIn URL\<close> included, while the file written holds the
  de-duplicated table. In the sample two scraped profiles share an address: two
  results are returned and one row is written.
\<close>

theorem run_returns_results_with_duplicates:
  assumes "returned (LinkedInScraper_run W cfg) = Inr rs"
  shows "(\<exists>ps sl. scrape_search_pages W cfg = Inr ps \<and>
            send_connection_requests W cfg ps = (Inr rs, sl) \<and> map profile_of rs = ps) \<and>
         (\<forall>f\<in>set (written (LinkedInScraper_run W cfg)). snd f = results_frame (dedupe rs))"
proof -
  from scraper_run_Inr[OF assms] obtain ps sl where
    h: "scrape_search_pages W cfg = Inr ps" "send_connection_requests W cfg ps = (Inr rs, sl)"
       "written (LinkedInScraper_run W cfg) =
             (case output_csv_path cfg of
                None \<Rightarrow> []
              | Some p \<Rightarrow> if p = [] then [] else [(p, results_frame (dedupe rs))])"
    by blast
  from h(3) have "\<forall>f\<in>set (written (LinkedInScraper_run W cfg)). snd f = results_frame (dedupe rs)"
    by (auto split: option.splits if_splits)
  with h(1,2) send_connection_requests_Inr(1)[OF h(2)] show ?thesis by blast
qed

theorem run_returns_results_with_duplicates_witness:
  "returned (LinkedInScraper_run demo_scraper_world demo_scraper_config) = Inr [jane_sent, jane_none] \<and>
   LinkedIn_URL jane_sent = LinkedIn_URL jane_none \<and>
   map profile_of [jane_sent, jane_none] = [jane, jane] \<and>
   map snd (written (LinkedInScraper_run demo_scraper_world demo_scraper_config))
     = [results_frame [jane_sent]]"
proof -
  have r: "returned (LinkedInScraper_run demo_scraper_world demo_scraper_config)
             = Inr [jane_sent, jane_none]"
    by (simp add: demo_scraper_run jane_sent_def jane_none_def)
  have d: "dedupe [jane_sent, jane_none] = [jane_sent]"
    by (simp add: dedupe_def jane_sent_def jane_none_def)
  have w: "length (written (LinkedInScraper_run demo_scraper_world demo_scraper_config)) = 1"
    by (simp add: demo_scraper_run)
  have u: "LinkedIn_URL jane_sent = LinkedIn_URL jane_none"
    by (simp add: jane_sent_def jane_none_def)
  from run_returns_results_with_duplicates[OF r] demo_scrape d
  have "map profile_of [jane_sent, jane_none] = [jane, jane]"
    and "\<forall>f\<in>set (written (LinkedInScraper_run demo_scraper_world demo_scraper_config)).
           snd f = results_frame [jane_sent]"
    by auto
  with r u w show ?thesis
    by (cases "written (LinkedInScraper_run demo_scraper_world demo_scraper_config)") auto
qed

end
